theory Spec2Isabelle
  imports Complex_Main
begin

section \<open>Python values, exceptions and built-in operations\<close>

text \<open>
  The handlers of \<^verbatim>\<open>app/ai/storybook.py\<close> and \<^verbatim>\<open>app/ai/worddetective.py\<close> work on
  whatever \<^verbatim>\<open>json.loads\<close> returns, with no type check of their own, so the model keeps
  Python's dynamic typing: one type of values, and every built-in operation that can raise
  returns a sum, \<open>Inl\<close> carrying the exception.

  A float is kept by the rational number its literal denotes (only whether it is zero
  matters to the code below); \<^verbatim>\<open>json.loads\<close> also yields the three special floats.
  A dictionary is an association list in insertion order; the decoder yields distinct keys.
  Strings are lists of characters.
\<close>

datatype pyfloat = Finite rat | NaN | PosInfinity | NegInfinity

datatype pyval =
    PyNone
  | PyBool bool
  | PyInt int
  | PyFloat pyfloat
  | PyStr string
  | PyList "pyval list"
  | PyDict "(string \<times> pyval) list"

text \<open>
  The exceptions that occur. All of them are subclasses of Python's \<^verbatim>\<open>Exception\<close>, so an
  \<^verbatim>\<open>except Exception\<close> clause catches every one; \<^verbatim>\<open>except json.JSONDecodeError\<close>
  catches the first only (\<^verbatim>\<open>JSONDecodeError\<close> is a subclass of \<^verbatim>\<open>ValueError\<close>, not the
  other way round). \<open>ValidationError\<close> is the failure of a pydantic model, and
  \<open>ProviderError\<close> stands for whatever a provider client raises.
\<close>

datatype exn =
    JSONDecodeError
  | ValueError
  | RecursionError
  | TypeError
  | KeyError
  | ValidationError
  | ProviderError string

text \<open>Truth value testing (\<^verbatim>\<open>if not x\<close>).\<close>

fun truthy :: "pyval \<Rightarrow> bool" where
  "truthy PyNone = False"
| "truthy (PyBool b) = b"
| "truthy (PyInt n) = (n \<noteq> 0)"
| "truthy (PyFloat x) = (x \<noteq> Finite 0)"
| "truthy (PyStr s) = (s \<noteq> [])"
| "truthy (PyList xs) = (xs \<noteq> [])"
| "truthy (PyDict kvs) = (kvs \<noteq> [])"

text \<open>\<^verbatim>\<open>sub in s\<close> on two strings: \<open>sub\<close> occurs in \<open>s\<close> as a contiguous block.\<close>

fun starts_with :: "string \<Rightarrow> string \<Rightarrow> bool" where
  "starts_with [] s = True"
| "starts_with (p # ps) [] = False"
| "starts_with (p # ps) (c # cs) = (p = c \<and> starts_with ps cs)"

fun str_contains :: "string \<Rightarrow> string \<Rightarrow> bool" where
  "str_contains sub [] = (sub = [])"
| "str_contains sub (c # cs) = (starts_with sub (c # cs) \<or> str_contains sub cs)"

text \<open>
  The operator \<^verbatim>\<open>k in x\<close> for a string \<open>k\<close>: key membership on a dictionary, element
  membership on a list, substring test on a string, \<^verbatim>\<open>TypeError\<close> on anything else.
\<close>

fun py_in :: "string \<Rightarrow> pyval \<Rightarrow> exn + bool" where
  "py_in k (PyDict kvs) = Inr (k \<in> set (map fst kvs))"
| "py_in k (PyList xs) = Inr (PyStr k \<in> set xs)"
| "py_in k (PyStr s) = Inr (str_contains k s)"
| "py_in k PyNone = Inl TypeError"
| "py_in k (PyBool b) = Inl TypeError"
| "py_in k (PyInt n) = Inl TypeError"
| "py_in k (PyFloat x) = Inl TypeError"

text \<open>\<^verbatim>\<open>all(k in x for k in ks)\<close>: stops at the first key that is absent, or that raises.\<close>

fun py_all_in :: "string list \<Rightarrow> pyval \<Rightarrow> exn + bool" where
  "py_all_in [] x = Inr True"
| "py_all_in (k # ks) x =
     (case py_in k x of
        Inl e \<Rightarrow> Inl e
      | Inr present \<Rightarrow> if present then py_all_in ks x else Inr False)"

text \<open>\<^verbatim>\<open>len(x)\<close>.\<close>

fun py_len :: "pyval \<Rightarrow> exn + nat" where
  "py_len (PyStr s) = Inr (length s)"
| "py_len (PyList xs) = Inr (length xs)"
| "py_len (PyDict kvs) = Inr (length kvs)"
| "py_len PyNone = Inl TypeError"
| "py_len (PyBool b) = Inl TypeError"
| "py_len (PyInt n) = Inl TypeError"
| "py_len (PyFloat x) = Inl TypeError"

text \<open>
  \<^verbatim>\<open>x[k]\<close> for a string \<open>k\<close>: a dictionary looks the key up (\<^verbatim>\<open>KeyError\<close> when it is
  absent); lists and strings take integer indices only, and the other values are not
  subscriptable: \<^verbatim>\<open>TypeError\<close>.
\<close>

fun py_getitem :: "pyval \<Rightarrow> string \<Rightarrow> exn + pyval" where
  "py_getitem (PyDict kvs) k = (case map_of kvs k of Some v \<Rightarrow> Inr v | None \<Rightarrow> Inl KeyError)"
| "py_getitem PyNone k = Inl TypeError"
| "py_getitem (PyBool b) k = Inl TypeError"
| "py_getitem (PyInt n) k = Inl TypeError"
| "py_getitem (PyFloat x) k = Inl TypeError"
| "py_getitem (PyStr s) k = Inl TypeError"
| "py_getitem (PyList xs) k = Inl TypeError"

text \<open>
  \<^verbatim>\<open>x[k] = v\<close> for a string \<open>k\<close>: a dictionary replaces the value in place or appends the
  new key; nothing else accepts a string key.
\<close>

fun dict_update :: "string \<Rightarrow> pyval \<Rightarrow> (string \<times> pyval) list \<Rightarrow> (string \<times> pyval) list" where
  "dict_update k v [] = [(k, v)]"
| "dict_update k v (p # ps) = (if fst p = k then (k, v) # ps else p # dict_update k v ps)"

fun py_setitem :: "pyval \<Rightarrow> string \<Rightarrow> pyval \<Rightarrow> exn + pyval" where
  "py_setitem (PyDict kvs) k v = Inr (PyDict (dict_update k v kvs))"
| "py_setitem PyNone k v = Inl TypeError"
| "py_setitem (PyBool b) k v = Inl TypeError"
| "py_setitem (PyInt n) k v = Inl TypeError"
| "py_setitem (PyFloat x) k v = Inl TypeError"
| "py_setitem (PyStr s) k v = Inl TypeError"
| "py_setitem (PyList xs) k v = Inl TypeError"

text \<open>
  \<^verbatim>\<open>x[:n]\<close>: the first \<open>n\<close> elements of a list or characters of a string. A dictionary
  raises (\<^verbatim>\<open>TypeError\<close>, unhashable slice, up to Python 3.11; \<^verbatim>\<open>KeyError\<close> from 3.12 on:
  the model keeps the former), the other values are not subscriptable.
\<close>

fun py_slice_to :: "pyval \<Rightarrow> nat \<Rightarrow> exn + pyval" where
  "py_slice_to (PyList xs) n = Inr (PyList (take n xs))"
| "py_slice_to (PyStr s) n = Inr (PyStr (take n s))"
| "py_slice_to (PyDict kvs) n = Inl TypeError"
| "py_slice_to PyNone n = Inl TypeError"
| "py_slice_to (PyBool b) n = Inl TypeError"
| "py_slice_to (PyInt i) n = Inl TypeError"
| "py_slice_to (PyFloat x) n = Inl TypeError"

text \<open>
  Iteration (\<^verbatim>\<open>for obj in x\<close>): the elements of a list, the one-character strings of a
  string, the keys of a dictionary; \<^verbatim>\<open>TypeError\<close> on anything else.
\<close>

fun py_iter :: "pyval \<Rightarrow> exn + pyval list" where
  "py_iter (PyList xs) = Inr xs"
| "py_iter (PyStr s) = Inr (map (\<lambda>c. PyStr [c]) s)"
| "py_iter (PyDict kvs) = Inr (map (\<lambda>p. PyStr (fst p)) kvs)"
| "py_iter PyNone = Inl TypeError"
| "py_iter (PyBool b) = Inl TypeError"
| "py_iter (PyInt n) = Inl TypeError"
| "py_iter (PyFloat x) = Inl TypeError"

text \<open>
  \<^verbatim>\<open>s.find(c)\<close> and \<^verbatim>\<open>s.rfind(c)\<close> for a character: the lowest and the highest index
  of \<open>c\<close>, or \<open>-1\<close>.
\<close>

fun py_find :: "char \<Rightarrow> string \<Rightarrow> int" where
  "py_find c [] = - 1"
| "py_find c (x # xs) =
     (if x = c then 0 else (let r = py_find c xs in if r = - 1 then - 1 else r + 1))"

fun py_rfind :: "char \<Rightarrow> string \<Rightarrow> int" where
  "py_rfind c [] = - 1"
| "py_rfind c (x # xs) =
     (let r = py_rfind c xs in if r \<noteq> - 1 then r + 1 else if x = c then 0 else - 1)"

text \<open>
  \<^verbatim>\<open>s[start:stop]\<close>: a negative bound counts from the end, both bounds are clamped to
  the string.
\<close>

definition py_slice :: "string \<Rightarrow> int \<Rightarrow> int \<Rightarrow> string" where
  "py_slice s start stop =
     (let n = int (length s);
          lo = (if start < 0 then max 0 (start + n) else min start n);
          hi = (if stop < 0 then max 0 (stop + n) else min stop n)
      in take (nat (hi - lo)) (drop (nat lo) s))"

text \<open>\<^verbatim>\<open>sep.join(xs)\<close>.\<close>

fun py_join :: "string \<Rightarrow> string list \<Rightarrow> string" where
  "py_join sep [] = []"
| "py_join sep [x] = x"
| "py_join sep (x # y # ys) = x @ sep @ py_join sep (y # ys)"

text \<open>
  \<^verbatim>\<open>s.lower()\<close> and \<^verbatim>\<open>s.replace(" ", "")\<close>. Characters are code points below 256:
  the letters with a lower-case form there are \<open>A\<close> to \<open>Z\<close> and the Latin-1 capitals
  (192 to 222 but the multiplication sign 215), 32 below their lower-case forms.
\<close>

definition lower_char :: "char \<Rightarrow> char" where
  "lower_char c =
     (let n = (of_char c :: nat)
      in if (65 \<le> n \<and> n \<le> 90) \<or> (192 \<le> n \<and> n \<le> 222 \<and> n \<noteq> 215)
         then char_of (n + 32) else c)"

definition py_lower :: "string \<Rightarrow> string" where
  "py_lower s = map lower_char s"

definition remove_spaces :: "string \<Rightarrow> string" where
  "remove_spaces s = filter (\<lambda>c. c \<noteq> CHR '' '') s"

section \<open>Word detective: the mistake classifier and the risk band\<close>

text \<open>
  \<^verbatim>\<open>simple_mistake_type(correct, wrong)\<close>. The loop over \<^verbatim>\<open>range(len(wrong) - 1)\<close> returns
  at the first index \<open>i\<close> with \<open>i < len(correct) - 1\<close> where the two words have the
  characters at \<open>i\<close> and \<open>i + 1\<close> swapped. Both words are non-empty when the loop is
  reached, so the subtractions do not go below zero and every index read is in range.
\<close>

definition swapped_at :: "string \<Rightarrow> string \<Rightarrow> nat \<Rightarrow> bool" where
  "swapped_at correct wrong i =
     (i < length correct - 1 \<and> wrong ! (i + 1) = correct ! i \<and> wrong ! i = correct ! (i + 1))"

definition simple_mistake_type :: "string \<Rightarrow> string \<Rightarrow> string" where
  "simple_mistake_type correct wrong =
     (if correct = [] \<or> wrong = [] then ''other''
      else if remove_spaces (py_lower correct) = remove_spaces (py_lower wrong)
        then ''case/spacing''
      else if list_ex (swapped_at correct wrong) [0..<length wrong - 1]
        then ''transposition''
      else if length wrong < length correct then ''missing_letter''
      else if length wrong > length correct then ''extra_letter''
      else if (str_contains ''ei'' (py_lower correct) \<or> str_contains ''ie'' (py_lower correct))
            \<and> (str_contains ''ei'' (py_lower wrong) \<or> str_contains ''ie'' (py_lower wrong))
        then ''ei/ie_confusion''
      else ''other'')"

text \<open>
  The risk band of \<^verbatim>\<open>analyze_results\<close>:
  \<^verbatim>\<open>"low" if accuracy > 80 else "monitor" if accuracy > 60 else "high"\<close>.
  \<open>accuracy\<close> is the value of the variable of that name, the percentage before it is
  rounded to two places for the response; a float is a rational number and Python compares
  it with the integers 80 and 60 exactly.
\<close>

definition risk :: "rat \<Rightarrow> string" where
  "risk accuracy =
     (if accuracy > 80 then ''low'' else if accuracy > 60 then ''monitor'' else ''high'')"

section \<open>Storybook: the response extractor\<close>

text \<open>
  \<^verbatim>\<open>parse_json_response(text)\<close>. The decoder \<^verbatim>\<open>json.loads\<close> belongs to Python's
  library, not to the repository: it is the parameter \<open>loads\<close>, \<open>Inl e\<close> when it raises
  \<open>e\<close>. The function catches \<^verbatim>\<open>json.JSONDecodeError\<close> only, around both calls; any other
  exception of the decoder would pass through. Python's \<^verbatim>\<open>None\<close> is \<open>PyNone\<close>, which is
  also what the text \<^verbatim>\<open>null\<close> decodes to.
\<close>

definition parse_json_response :: "(string \<Rightarrow> exn + pyval) \<Rightarrow> string \<Rightarrow> exn + pyval" where
  "parse_json_response loads text =
     (case loads text of
        Inr v \<Rightarrow> Inr v
      | Inl JSONDecodeError \<Rightarrow>
          (let start = py_find CHR ''{'' text;
               end' = py_rfind CHR ''}'' text + 1
           in if start \<noteq> - 1 \<and> end' > start then
                (case loads (py_slice text start end') of
                   Inr v \<Rightarrow> Inr v
                 | Inl JSONDecodeError \<Rightarrow> Inr PyNone
                 | Inl e \<Rightarrow> Inl e)
              else Inr PyNone)
      | Inl e \<Rightarrow> Inl e)"

text \<open>
  The extractor as the specification words it, for comparison with the code: the first
  opening brace and the last closing brace are found as positions (none when the
  character is absent), and the text between them, both included, is decoded.
\<close>

definition first_index :: "char \<Rightarrow> string \<Rightarrow> nat option" where
  "first_index c s = (if c \<in> set s then Some (length (takeWhile (\<lambda>x. x \<noteq> c) s)) else None)"

definition last_index :: "char \<Rightarrow> string \<Rightarrow> nat option" where
  "last_index c s =
     (if c \<in> set s then Some (length s - 1 - length (takeWhile (\<lambda>x. x \<noteq> c) (rev s))) else None)"

definition between_inclusive :: "string \<Rightarrow> nat \<Rightarrow> nat \<Rightarrow> string" where
  "between_inclusive s i j = take (j + 1 - i) (drop i s)"

definition decoded :: "(string \<Rightarrow> exn + pyval) \<Rightarrow> string \<Rightarrow> pyval option" where
  "decoded loads text = (case loads text of Inr v \<Rightarrow> Some v | Inl e \<Rightarrow> None)"

definition extract_spec :: "(string \<Rightarrow> exn + pyval) \<Rightarrow> string \<Rightarrow> pyval option" where
  "extract_spec loads text =
     (case decoded loads text of
        Some v \<Rightarrow> Some v
      | None \<Rightarrow>
          (case first_index CHR ''{'' text of
             None \<Rightarrow> None
           | Some i \<Rightarrow>
               (case last_index CHR ''}'' text of
                  None \<Rightarrow> None
                | Some j \<Rightarrow>
                    if i < j then decoded loads (between_inclusive text i j) else None)))"

text \<open>Python has one absent value: a payload that was not found is \<^verbatim>\<open>None\<close>.\<close>

definition or_none :: "pyval option \<Rightarrow> pyval" where
  "or_none r = (case r of Some v \<Rightarrow> v | None \<Rightarrow> PyNone)"

text \<open>
  A decoder that raises nothing but \<^verbatim>\<open>JSONDecodeError\<close>. Python's \<^verbatim>\<open>json.loads\<close> is
  not such a decoder on every string: an integer literal of more than 4300 digits makes
  it raise \<^verbatim>\<open>ValueError\<close>, and brackets nested too deep make it raise
  \<^verbatim>\<open>RecursionError\<close>.
\<close>

definition raises_only_decode_error :: "(string \<Rightarrow> exn + pyval) \<Rightarrow> bool" where
  "raises_only_decode_error loads = (\<forall>s e. loads s = Inl e \<longrightarrow> e = JSONDecodeError)"

text \<open>
  A decoder for the concrete examples below. It agrees with \<^verbatim>\<open>json.loads\<close> on three
  kinds of text. An unsigned integer literal (digits, no leading zero) is the integer it
  writes, and \<^verbatim>\<open>ValueError\<close> when it has more than 4300 digits, Python's limit for the
  conversion of a string to an integer. A text of opening brackets only, one hundred
  thousand or more, is \<^verbatim>\<open>RecursionError\<close>. A text of the table is the value beside it.
  Every other text is rejected with \<^verbatim>\<open>JSONDecodeError\<close>; the examples call the decoder
  on texts of these three kinds, and on texts that \<^verbatim>\<open>json.loads\<close> rejects as well.
\<close>

definition is_digit :: "char \<Rightarrow> bool" where
  "is_digit c = (let n = (of_char c :: nat) in 48 \<le> n \<and> n \<le> 57)"

definition is_integer_literal :: "string \<Rightarrow> bool" where
  "is_integer_literal s =
     (s \<noteq> [] \<and> list_all is_digit s \<and> (length s = 1 \<or> hd s \<noteq> CHR ''0''))"

definition decimal_value :: "string \<Rightarrow> int" where
  "decimal_value s = foldl (\<lambda>n c. 10 * n + (int (of_char c) - 48)) 0 s"

definition five_items :: pyval where
  "five_items = PyList [PyStr ''s1'', PyStr ''s2'', PyStr ''s3'', PyStr ''s4'', PyStr ''s5'']"

definition seven_items :: pyval where
  "seven_items = PyList [PyStr ''s1'', PyStr ''s2'', PyStr ''s3'', PyStr ''s4'', PyStr ''s5'',
     PyStr ''s6'', PyStr ''s7'']"

definition sample_round :: "string \<Rightarrow> pyval \<Rightarrow> pyval" where
  "sample_round ident its =
     PyDict [(''id'', PyStr ident), (''type'', PyStr ''text''), (''promptText'', PyStr ''Tap''),
             (''items'', its)]"

definition tagged_round :: "string \<Rightarrow> pyval \<Rightarrow> pyval" where
  "tagged_round ident its =
     PyDict [(''id'', PyStr ident), (''type'', PyStr ''text''), (''promptText'', PyStr ''Tap''),
             (''items'', its), (''aiGenerated'', PyBool True)]"

definition valid_rounds_text :: string where
  \<open>valid_rounds_text = ''{"rounds": [{"id": "ai-4", "type": "text", "promptText": "Tap", "items": ["s1", "s2", "s3", "s4", "s5"]}, {"id": "ai-5", "type": "text", "promptText": "Tap", "items": ["s1", "s2", "s3", "s4", "s5"]}]}''\<close>

definition long_round_text :: string where
  \<open>long_round_text = ''{"rounds": [{"id": "ai-4", "type": "text", "promptText": "Tap", "items": ["s1", "s2", "s3", "s4", "s5", "s6", "s7"]}, {"id": "ai-5", "type": "text", "promptText": "Tap", "items": ["s1", "s2", "s3", "s4", "s5"]}]}''\<close>

definition null_rounds_text :: string where
  \<open>null_rounds_text = ''{"rounds": null}''\<close>

definition empty_pair_text :: string where
  \<open>empty_pair_text = ''[{"correct": "", "wrong": ""}]''\<close>

definition cat_pair_text :: string where
  \<open>cat_pair_text = ''[{"correct": "cat", "wrong": "kat"}]''\<close>

definition bare_string_text :: string where
  \<open>bare_string_text = ''["correct wrong"]''\<close>

definition untyped_pair_text :: string where
  \<open>untyped_pair_text = ''[{"correct": null, "wrong": 5}]''\<close>

definition sample_texts :: "(string \<times> pyval) list" where
  \<open>sample_texts =
    [(''{"a": 1}'', PyDict [(''a'', PyInt 1)]),
     (null_rounds_text, PyDict [(''rounds'', PyNone)]),
     (valid_rounds_text,
      PyDict [(''rounds'', PyList [sample_round ''ai-4'' five_items, sample_round ''ai-5'' five_items])]),
     (long_round_text,
      PyDict [(''rounds'', PyList [sample_round ''ai-4'' seven_items, sample_round ''ai-5'' five_items])]),
     (empty_pair_text, PyList [PyDict [(''correct'', PyStr []), (''wrong'', PyStr [])]]),
     (cat_pair_text, PyList [PyDict [(''correct'', PyStr ''cat''), (''wrong'', PyStr ''kat'')]]),
     (bare_string_text, PyList [PyStr ''correct wrong'']),
     (untyped_pair_text, PyList [PyDict [(''correct'', PyNone), (''wrong'', PyInt 5)]])]\<close>

definition json_loads_sample :: "string \<Rightarrow> exn + pyval" where
  "json_loads_sample text =
     (if is_integer_literal text then
        (if int (length text) > 4300 then Inl ValueError else Inr (PyInt (decimal_value text)))
      else if 100000 \<le> int (length text) \<and> list_all (\<lambda>c. c = CHR ''['') text
        then Inl RecursionError
      else
        (case map_of sample_texts text of Some v \<Rightarrow> Inr v | None \<Rightarrow> Inl JSONDecodeError))"

section \<open>Storybook: the process state and its surroundings\<close>

text \<open>
  The module keeps one mutable global, \<^verbatim>\<open>rounds_cache\<close>. What a handler does to the
  outside is recorded as a trace: a call of the provider with its prompt, and a
  \<^verbatim>\<open>time.sleep\<close> with its seconds. (Output printed to the console is left out.)
\<close>

datatype event = ProviderCall string | Sleep nat

record world =
  rounds_cache :: "string \<rightharpoonup> pyval list"
  trace :: "event list"

definition startup :: world where
  "startup = \<lparr>rounds_cache = Map.empty, trace = []\<rparr>"

fun is_provider_call :: "event \<Rightarrow> bool" where
  "is_provider_call (ProviderCall p) = True"
| "is_provider_call (Sleep n) = False"

definition provider_calls :: "event list \<Rightarrow> nat" where
  "provider_calls tr = length (filter is_provider_call tr)"

text \<open>
  What the code takes from outside the repository: the environment variable
  \<^verbatim>\<open>GEMINI_API_KEY\<close> as \<^verbatim>\<open>os.getenv\<close> returns it, the decoder \<^verbatim>\<open>json.loads\<close>, the
  conversion \<^verbatim>\<open>str\<close>, and the two providers. \<open>generate_content env n prompt\<close> is the
  outcome of \<^verbatim>\<open>genai.GenerativeModel(...).generate_content(prompt)\<close> followed by the read of
  \<^verbatim>\<open>response.text\<close>, when \<open>n\<close> calls of the provider came before it: the text, or the
  exception raised. \<open>chat_completion prompt\<close> is the outcome of the Groq call up to
  \<^verbatim>\<open>resp.choices[0].message.content\<close>.
\<close>

record env =
  GEMINI_API_KEY :: "string option"
  json_loads :: "string \<Rightarrow> exn + pyval"
  py_str :: "pyval \<Rightarrow> string"
  generate_content :: "nat \<Rightarrow> string \<Rightarrow> exn + string"
  chat_completion :: "string \<Rightarrow> exn + string"

text \<open>\<^verbatim>\<open>bool(gemini_api_key)\<close>: the variable is set, and not to the empty string.\<close>

definition key_configured :: "string option \<Rightarrow> bool" where
  "key_configured k = (case k of None \<Rightarrow> False | Some key \<Rightarrow> key \<noteq> [])"

section \<open>Storybook: the model gateway\<close>

text \<open>
  The loop \<^verbatim>\<open>for attempt in range(max_retries)\<close> of \<^verbatim>\<open>call_gemini_with_retry\<close>, from
  the iteration \<open>attempt\<close> on. A successful attempt returns its text; a failed one is
  followed by \<^verbatim>\<open>time.sleep(1)\<close> unless it was the last, and the loop goes on. The
  \<^verbatim>\<open>except Exception\<close> clause catches whatever the provider raises.
\<close>

function attempt_loop ::
  "env \<Rightarrow> string \<Rightarrow> int \<Rightarrow> int \<Rightarrow> event list \<Rightarrow> string option \<times> event list" where
  "attempt_loop env prompt max_retries attempt tr =
     (if attempt < max_retries then
        (case generate_content env (provider_calls tr) prompt of
           Inr text \<Rightarrow> (Some text, tr @ [ProviderCall prompt])
         | Inl e \<Rightarrow>
             attempt_loop env prompt max_retries (attempt + 1)
               (tr @ [ProviderCall prompt]
                   @ (if attempt < max_retries - 1 then [Sleep 1] else [])))
      else (None, tr))"
  by pat_completeness auto
termination
  by (relation "measure (\<lambda>(env, prompt, max_retries, attempt, tr). nat (max_retries - attempt))")
    auto

text \<open>
  \<^verbatim>\<open>call_gemini_with_retry(prompt, max_retries)\<close>: \<^verbatim>\<open>None\<close> at once when the key is not
  configured, else the loop from attempt 0. The result is the text or \<^verbatim>\<open>None\<close>, and
  the trace extended by what was done.
\<close>

definition call_gemini_with_retry ::
  "env \<Rightarrow> string \<Rightarrow> int \<Rightarrow> event list \<Rightarrow> string option \<times> event list" where
  "call_gemini_with_retry env prompt max_retries tr =
     (if \<not> key_configured (GEMINI_API_KEY env) then (None, tr)
      else attempt_loop env prompt max_retries 0 tr)"

text \<open>
  The schedule the specification asks of a call whose attempts all fail: \<open>n\<close> calls of
  the provider, with one wait of the fixed backoff between each two.
\<close>

fun attempts_with_backoff :: "nat \<Rightarrow> string \<Rightarrow> event list" where
  "attempts_with_backoff 0 prompt = []"
| "attempts_with_backoff (Suc 0) prompt = [ProviderCall prompt]"
| "attempts_with_backoff (Suc (Suc n)) prompt =
     ProviderCall prompt # Sleep 1 # attempts_with_backoff (Suc n) prompt"

section \<open>Storybook: round generation\<close>

definition FALLBACK_ROUNDS :: "pyval list" where
  "FALLBACK_ROUNDS =
     [PyDict
        [(''id'', PyStr ''fallback-4''),
         (''type'', PyStr ''text''),
         (''promptText'', PyStr ''Tap the sentences in the correct story order:''),
         (''items'', PyList
            [PyStr ''A small bird lost its way during a storm.'',
             PyStr ''A kind child found the bird and brought it home.'',
             PyStr ''The bird learned to fly again and thanked the child.'']),
         (''aiGenerated'', PyBool True)],
      PyDict
        [(''id'', PyStr ''fallback-5''),
         (''type'', PyStr ''text''),
         (''promptText'', PyStr ''Tap the sentences in the correct story order:''),
         (''items'', PyList
            [PyStr ''The boy planted a tiny seed in the garden.'',
             PyStr ''A green sprout grew and turned into a plant.'',
             PyStr ''Soon the plant had bright flowers that bees loved.'']),
         (''aiGenerated'', PyBool True)]]"

record GenerateRoundsRequest =
  preferredLanguage :: string
  sessionId :: "string option"

record GenerateRoundsResponse =
  rounds :: "pyval list"
  source :: string

definition fallback_rounds_response :: GenerateRoundsResponse where
  "fallback_rounds_response =
     \<lparr>GenerateRoundsResponse.rounds = FALLBACK_ROUNDS, GenerateRoundsResponse.source = ''fallback''\<rparr>"

text \<open>The prompt of \<^verbatim>\<open>generate_rounds\<close>, an f-string with the requested language in it.\<close>

definition generate_rounds_prompt :: "string \<Rightarrow> string" where
  \<open>generate_rounds_prompt language =
    ''You are creating personalized dyslexia screening stories for a child. These stories should help identify potential dyslexia markers through careful sequencing challenges.\<newline>'' @
    ''\<newline>'' @
    ''Return exactly 2 rounds as JSON. Each round must have:\<newline>'' @
    ''- id: string (e.g., "ai-4", "ai-5")\<newline>'' @
    ''- type: "text"\<newline>'' @
    ''- promptText: instruction (e.g., "Tap the sentences in the correct story order:")\<newline>'' @
    ''- items: array of exactly 5-6 short sentences (8-15 words each) forming a coherent story\<newline>'' @
    ''\<newline>'' @
    ''IMPORTANT - Design sentences to expose dyslexia markers:\<newline>'' @
    ''1. Include words with visually similar letters (b/d, p/q, n/u) to detect VISUAL CONFUSION\<newline>'' @
    ''2. Include words with similar sounds but different meanings to detect PHONOLOGICAL CUES\<newline>'' @
    ''3. Include temporal sequencing words (first, then, after, before, finally) to test SEQUENCING\<newline>'' @
    ''4. Vary sentence length and structure to test reading comprehension\<newline>'' @
    ''5. Make the story internally coherent so correct sequencing is clear\<newline>'' @
    ''\<newline>'' @
    ''Example structures:\<newline>'' @
    ''- "The boy and girl began their day." (b/d confusion potential)\<newline>'' @
    ''- "The doll was different from the dollar." (d/b and similar sounds)\<newline>'' @
    ''- "Before the bell rang, Dan and Ben ran." (temporal + visual confusion)\<newline>'' @
    ''\<newline>'' @
    ''Generate 2 different stories, each with 5-6 sentences. Make them age-appropriate but strategically challenging.\<newline>'' @
    ''Keep sentences simple vocabulary but structurally interesting.\<newline>'' @
    ''Return ONLY valid JSON with key "rounds" containing an array of 2 round objects.\<newline>'' @
    ''Language: '' @ language @ ''\<newline>'' @
    ''\<newline>'' @
    ''Example format:\<newline>'' @
    ''{"rounds": [{"id": "ai-4", "type": "text", "promptText": "Tap...", "items": ["sentence 1", "sentence 2", "sentence 3", "sentence 4", "sentence 5"]}, {"id": "ai-5", "type": "text", "promptText": "Tap...", "items": ["sentence 1", "sentence 2", "sentence 3", "sentence 4", "sentence 5", "sentence 6"]}]}\<newline>''\<close>

text \<open>
  The validation loop over \<^verbatim>\<open>enumerate(rounds_data)\<close>. \<open>Inr None\<close> is the early
  \<^verbatim>\<open>return\<close> of the fallback response from inside the loop; \<open>Inr (Some rs)\<close> is the
  loop run to its end, \<open>rs\<close> being the rounds after \<^verbatim>\<open>round_data["aiGenerated"] = True\<close>
  was executed on each; \<open>Inl e\<close> is an exception that no clause catches.
\<close>

fun validate_rounds :: "pyval list \<Rightarrow> exn + pyval list option" where
  "validate_rounds [] = Inr (Some [])"
| "validate_rounds (round_data # rest) =
     (case py_all_in [''id'', ''type'', ''promptText'', ''items''] round_data of
        Inl e \<Rightarrow> Inl e
      | Inr has_fields \<Rightarrow>
          if \<not> has_fields then Inr None
          else
            (case py_getitem round_data ''items'' of
               Inl e \<Rightarrow> Inl e
             | Inr its \<Rightarrow>
                 (case py_len its of
                    Inl e \<Rightarrow> Inl e
                  | Inr n \<Rightarrow>
                      if n < 5 then Inr None
                      else
                        (case py_setitem round_data ''aiGenerated'' (PyBool True) of
                           Inl e \<Rightarrow> Inl e
                         | Inr tagged \<Rightarrow>
                             (case validate_rounds rest of
                                Inl e \<Rightarrow> Inl e
                              | Inr None \<Rightarrow> Inr None
                              | Inr (Some others) \<Rightarrow> Inr (Some (tagged # others)))))))"

text \<open>
  Lines 158 to 175 of \<^verbatim>\<open>generate_rounds\<close>, from the parsed payload to the validated
  rounds: \<^verbatim>\<open>if not parsed\<close>, then
  \<^verbatim>\<open>if "rounds" not in parsed or len(parsed["rounds"]) < 2\<close>, then the slice
  \<^verbatim>\<open>parsed["rounds"][:2]\<close> and the loop. The results read as for \<open>validate_rounds\<close>.
\<close>

definition validate_payload :: "pyval \<Rightarrow> exn + pyval list option" where
  "validate_payload parsed =
     (if \<not> truthy parsed then Inr None
      else
        (case py_in ''rounds'' parsed of
           Inl e \<Rightarrow> Inl e
         | Inr present \<Rightarrow>
             if \<not> present then Inr None
             else
               (case py_getitem parsed ''rounds'' of
                  Inl e \<Rightarrow> Inl e
                | Inr rs \<Rightarrow>
                    (case py_len rs of
                       Inl e \<Rightarrow> Inl e
                     | Inr n \<Rightarrow>
                         if n < 2 then Inr None
                         else
                           (case py_slice_to rs 2 of
                              Inl e \<Rightarrow> Inl e
                            | Inr rounds_data \<Rightarrow>
                                (case py_iter rounds_data of
                                   Inl e \<Rightarrow> Inl e
                                 | Inr elems \<Rightarrow> validate_rounds elems))))))"

text \<open>
  \<^verbatim>\<open>request.sessionId and request.sessionId in rounds_cache\<close>, with the cached value:
  a session identifier that is absent or empty never hits.
\<close>

definition cache_lookup :: "world \<Rightarrow> string option \<Rightarrow> pyval list option" where
  "cache_lookup w sid =
     (case sid of None \<Rightarrow> None | Some s \<Rightarrow> if s = [] then None else rounds_cache w s)"

text \<open>\<^verbatim>\<open>if request.sessionId: rounds_cache[request.sessionId] = rounds_data\<close>.\<close>

definition cache_store :: "world \<Rightarrow> string option \<Rightarrow> pyval list \<Rightarrow> world" where
  "cache_store w sid rounds_data =
     (case sid of
        None \<Rightarrow> w
      | Some s \<Rightarrow> if s = [] then w else w\<lparr>rounds_cache := (rounds_cache w)(s \<mapsto> rounds_data)\<rparr>)"

text \<open>
  The handler of \<^verbatim>\<open>POST /generate-rounds\<close>. It returns the response, or the exception
  that escapes it (which FastAPI turns into a status 500), and the new state.
\<close>

definition generate_rounds ::
  "env \<Rightarrow> world \<Rightarrow> GenerateRoundsRequest \<Rightarrow> (exn + GenerateRoundsResponse) \<times> world" where
  "generate_rounds env w request =
     (case cache_lookup w (sessionId request) of
        Some cached \<Rightarrow>
          (Inr \<lparr>GenerateRoundsResponse.rounds = cached, GenerateRoundsResponse.source = ''ai''\<rparr>, w)
      | None \<Rightarrow>
          (let prompt = generate_rounds_prompt (preferredLanguage request);
               called = call_gemini_with_retry env prompt 2 (trace w);
               w1 = w\<lparr>trace := snd called\<rparr>
           in case fst called of
                None \<Rightarrow> (Inr fallback_rounds_response, w1)
              | Some response_text \<Rightarrow>
                  if response_text = [] then (Inr fallback_rounds_response, w1)
                  else
                    (case parse_json_response (json_loads env) response_text of
                       Inl e \<Rightarrow> (Inl e, w1)
                     | Inr parsed \<Rightarrow>
                         (case validate_payload parsed of
                            Inl e \<Rightarrow> (Inl e, w1)
                          | Inr None \<Rightarrow> (Inr fallback_rounds_response, w1)
                          | Inr (Some rounds_data) \<Rightarrow>
                              (Inr \<lparr>GenerateRoundsResponse.rounds = rounds_data,
                                    GenerateRoundsResponse.source = ''ai''\<rparr>,
                               cache_store w1 (sessionId request) rounds_data)))))"

section \<open>Storybook: response analysis and the health check\<close>

record AnalyzeResponseRequest =
  roundId :: string
  promptText :: string
  items :: "pyval list"
  userOrder :: "pyval list"
  sessionId :: "string option"
  preferredLanguage :: string

record AnalyzeResponseResponse =
  analysis :: pyval
  source :: string














section \<open>Word detective: word-pair generation\<close>

text \<open>
  \<^verbatim>\<open>s.strip()\<close>: the white-space characters below 256 are the ASCII ones (9 to 13, 28 to
  32) and the code points 133 and 160.
\<close>

definition is_space :: "char \<Rightarrow> bool" where
  "is_space c =
     (let n = (of_char c :: nat)
      in (9 \<le> n \<and> n \<le> 13) \<or> (28 \<le> n \<and> n \<le> 32) \<or> n = 133 \<or> n = 160)"

definition py_strip :: "string \<Rightarrow> string" where
  "py_strip s = rev (dropWhile is_space (rev (dropWhile is_space s)))"

text \<open>
  \<^verbatim>\<open>re.sub(r"```(?:json)?\n", "", text)\<close>: every opening fence, three backquotes, then
  \<^verbatim>\<open>json\<close> or nothing, then a newline, is removed, scanning from the left.
\<close>

fun remove_fence_open :: "string \<Rightarrow> string" where
  "remove_fence_open [] = []"
| "remove_fence_open (c # cs) =
     (if starts_with ''```json\<newline>'' (c # cs) then remove_fence_open (drop 7 cs)
      else if starts_with ''```\<newline>'' (c # cs) then remove_fence_open (drop 3 cs)
      else c # remove_fence_open cs)"

text \<open>
  \<^verbatim>\<open>re.sub(r"```$", "", text_clean)\<close>: three backquotes are removed where the text ends
  after them, or where only one newline follows them at the end of the text.
\<close>

fun remove_fence_close :: "string \<Rightarrow> string" where
  "remove_fence_close [] = []"
| "remove_fence_close (c # cs) =
     (if starts_with ''```'' (c # cs) \<and> (drop 2 cs = [] \<or> drop 2 cs = ''\<newline>'')
      then remove_fence_close (drop 2 cs)
      else c # remove_fence_close cs)"

text \<open>
  \<^verbatim>\<open>build_generate_prompt(age, language, difficulties)\<close>; \<open>language\<close> is not used in
  the text.
\<close>

definition build_generate_prompt :: "(pyval \<Rightarrow> string) \<Rightarrow> int \<Rightarrow> string option \<Rightarrow> string list \<Rightarrow> string" where
  "build_generate_prompt str_of age language difficulties =
     ''You are a psychologist designing a short dyslexia risk screening activity for children. ''
     @ ''Create 6 simple English word pairs appropriate for a child aged '' @ str_of (PyInt age) @ ''. ''
     @ ''For each pair return a JSON object with 'correct' and 'wrong'. ''
     @ ''Difficulties to consider: ''
     @ (if py_join '', '' difficulties = [] then ''none'' else py_join '', '' difficulties) @ ''. ''
     @ ''Return only valid JSON.''"

record GenerateRequest =
  age :: int
  language :: "string option"
  difficulties :: "string list option"
  preferredLanguage :: "string option"

definition word_pair :: "string \<Rightarrow> string \<Rightarrow> pyval" where
  "word_pair c w = PyDict [(''correct'', PyStr c), (''wrong'', PyStr w)]"

definition FALLBACK_WORD_PAIRS :: "pyval list" where
  "FALLBACK_WORD_PAIRS =
     [word_pair ''friend'' ''freind'',
      word_pair ''because'' ''becuase'',
      word_pair ''beautiful'' ''beatiful'',
      word_pair ''tomorrow'' ''tommorow'',
      word_pair ''receive'' ''recieve'',
      word_pair ''different'' ''diffrent'']"

text \<open>
  The loop \<^verbatim>\<open>for obj in parsed\<close> that collects into \<^verbatim>\<open>pairs\<close> every element with
  \<^verbatim>\<open>"correct" in obj and "wrong" in obj\<close>; \<open>Inl e\<close> when a test raises.
\<close>

fun collect_pairs :: "pyval list \<Rightarrow> exn + pyval list" where
  "collect_pairs [] = Inr []"
| "collect_pairs (obj # objs) =
     (case py_all_in [''correct'', ''wrong''] obj of
        Inl e \<Rightarrow> Inl e
      | Inr both \<Rightarrow>
          (case collect_pairs objs of
             Inl e \<Rightarrow> Inl e
           | Inr pairs \<Rightarrow> Inr (if both then obj # pairs else pairs)))"

text \<open>
  The handler of \<^verbatim>\<open>POST /generate\<close>: the value of the key \<^verbatim>\<open>wordPairs\<close> of the
  dictionary it returns. Everything after the prompt is inside
  \<^verbatim>\<open>try: ... except Exception\<close>, which answers with the fallback list.
\<close>

definition generate_words :: "env \<Rightarrow> GenerateRequest \<Rightarrow> pyval list" where
  "generate_words env req =
     (let prompt = build_generate_prompt (py_str env) (age req) (language req)
                     (case difficulties req of None \<Rightarrow> [] | Some ds \<Rightarrow> ds)
      in case chat_completion env prompt of
           Inl e \<Rightarrow> FALLBACK_WORD_PAIRS
         | Inr content \<Rightarrow>
             (let text = py_strip content;
                  text_clean = remove_fence_close (remove_fence_open text)
              in case json_loads env text_clean of
                   Inl e \<Rightarrow> FALLBACK_WORD_PAIRS
                 | Inr parsed \<Rightarrow>
                     (case py_iter parsed of
                        Inl e \<Rightarrow> FALLBACK_WORD_PAIRS
                      | Inr objs \<Rightarrow>
                          (case collect_pairs objs of
                             Inl e \<Rightarrow> FALLBACK_WORD_PAIRS
                           | Inr pairs \<Rightarrow>
                               if pairs = [] then FALLBACK_WORD_PAIRS else take 6 pairs))))"

text \<open>
  The route is declared with \<^verbatim>\<open>response_model=GenerateResponse\<close>: FastAPI validates
  what the handler returns against \<^verbatim>\<open>wordPairs: List[WordPair]\<close>, a \<^verbatim>\<open>WordPair\<close>
  having the two fields \<^verbatim>\<open>correct: str\<close> and \<^verbatim>\<open>wrong: str\<close>. An element passes when it
  is a dictionary holding a string under each of the two keys (other keys are ignored).
  Anything else fails the validation, and the endpoint answers with status 500 instead of
  a list. (The validation is that of pydantic 2; pydantic 1 would accept a number under a
  key and return its digits as the string.)
\<close>

record WordPair =
  correct :: string
  wrong :: string

definition validate_WordPair :: "pyval \<Rightarrow> exn + WordPair" where
  "validate_WordPair obj =
     (case obj of
        PyDict kvs \<Rightarrow>
          (case map_of kvs ''correct'' of
             Some (PyStr c) \<Rightarrow>
               (case map_of kvs ''wrong'' of
                  Some (PyStr w) \<Rightarrow> Inr \<lparr>correct = c, wrong = w\<rparr>
                | _ \<Rightarrow> Inl ValidationError)
           | _ \<Rightarrow> Inl ValidationError)
      | _ \<Rightarrow> Inl ValidationError)"

fun validate_WordPairs :: "pyval list \<Rightarrow> exn + WordPair list" where
  "validate_WordPairs [] = Inr []"
| "validate_WordPairs (obj # objs) =
     (case validate_WordPair obj of
        Inl e \<Rightarrow> Inl e
      | Inr p \<Rightarrow>
          (case validate_WordPairs objs of
             Inl e \<Rightarrow> Inl e
           | Inr ps \<Rightarrow> Inr (p # ps)))"

text \<open>
  \<^verbatim>\<open>POST /generate\<close> as the endpoint serves it: the handler, then the validation of
  its return value. \<open>Inr\<close> is the list of word pairs of the response, \<open>Inl\<close> the
  failure that becomes the status 500.
\<close>

definition generate_words_endpoint :: "env \<Rightarrow> GenerateRequest \<Rightarrow> exn + WordPair list" where
  "generate_words_endpoint env req = validate_WordPairs (generate_words env req)"

text \<open>
  The invariant the specification gives for a word pair, and the link between a pair of
  the response and the element of the handler's list it was read from.
\<close>

definition nonempty_word_pair :: "WordPair \<Rightarrow> bool" where
  "nonempty_word_pair p = (correct p \<noteq> [] \<and> wrong p \<noteq> [])"

definition read_from :: "pyval \<Rightarrow> WordPair \<Rightarrow> bool" where
  "read_from obj p =
     (py_getitem obj ''correct'' = Inr (PyStr (correct p))
      \<and> py_getitem obj ''wrong'' = Inr (PyStr (wrong p)))"

text \<open>
  Concrete surroundings for the examples below: the sample decoder, a \<^verbatim>\<open>str\<close> that is
  never looked at, and providers that answer every call with the given outcome.
\<close>

definition sample_env :: "string option \<Rightarrow> (exn + string) \<Rightarrow> env" where
  "sample_env key outcome =
     \<lparr>GEMINI_API_KEY = key,
      json_loads = json_loads_sample,
      py_str = (\<lambda>v. ''?''),
      generate_content = (\<lambda>n prompt. outcome),
      chat_completion = (\<lambda>prompt. outcome)\<rparr>"

definition english_request :: "string option \<Rightarrow> GenerateRoundsRequest" where
  "english_request sid =
     \<lparr>GenerateRoundsRequest.preferredLanguage = ''english'', GenerateRoundsRequest.sessionId = sid\<rparr>"


definition sample_words_request :: GenerateRequest where
  "sample_words_request =
     \<lparr>age = 8, language = Some ''english'', difficulties = Some [],
      GenerateRequest.preferredLanguage = Some ''english''\<rparr>"

text \<open>\<^verbatim>\<open>len(round["items"])\<close>, the number of items of a round.\<close>

definition item_count :: "pyval \<Rightarrow> exn + nat" where
  "item_count round_data =
     (case py_getitem round_data ''items'' of Inl e \<Rightarrow> Inl e | Inr its \<Rightarrow> py_len its)"

text \<open>
  On the values the handler works with: an object whose \<open>correct\<close> and \<open>wrong\<close> are
  non-empty strings, and what the handler tests of an element.
\<close>

definition nonempty_pair :: "pyval \<Rightarrow> bool" where
  "nonempty_pair obj =
     (case py_getitem obj ''correct'' of
        Inr (PyStr c) \<Rightarrow>
          (case py_getitem obj ''wrong'' of
             Inr (PyStr w) \<Rightarrow> c \<noteq> [] \<and> w \<noteq> []
           | _ \<Rightarrow> False)
      | _ \<Rightarrow> False)"

definition has_both_fields :: "pyval \<Rightarrow> bool" where
  "has_both_fields obj = (py_all_in [''correct'', ''wrong''] obj = Inr True)"

text \<open>
  A round as the validation loop leaves it when it accepts it: the four required keys are
  there, \<^verbatim>\<open>len(round["items"])\<close> is at least 5, and \<open>aiGenerated\<close> is true.
\<close>

definition accepted_round :: "pyval \<Rightarrow> bool" where
  "accepted_round r =
     (py_all_in [''id'', ''type'', ''promptText'', ''items''] r = Inr True
      \<and> (case item_count r of Inr n \<Rightarrow> 5 \<le> n | Inl e \<Rightarrow> False)
      \<and> py_getitem r ''aiGenerated'' = Inr (PyBool True))"

section \<open>The classifier on the examples of the specification\<close>

text \<open>
  C7, as the code has it. The transposition scan comes before the digraph check, so
  \<open>receive\<close> against \<open>recieve\<close>, whose \<open>e\<close> and \<open>i\<close> at positions 3 and 4 are
  swapped, is a transposition; the four other examples are classified as the
  specification says.
\<close>

theorem simple_mistake_type_examples:
  "simple_mistake_type ''the'' ''hte'' = ''transposition''
   \<and> simple_mistake_type ''cat'' ''cats'' = ''extra_letter''
   \<and> simple_mistake_type ''Cat'' '' cat'' = ''case/spacing''
   \<and> simple_mistake_type ''receive'' ''recieve'' = ''transposition''
   \<and> simple_mistake_type ''dog'' ''big'' = ''other''"
  by code_simp

text \<open>
  C7 as the specification states it fails on its fourth example: the classifier does not
  answer \<open>ei/ie_confusion\<close> for \<open>receive\<close> against \<open>recieve\<close>.
\<close>

theorem simple_mistake_type_receive_counterexample:
  "simple_mistake_type ''receive'' ''recieve'' \<noteq> ''ei/ie_confusion''"
  by code_simp

section \<open>The risk band\<close>

text \<open>
  C9. The band is \<open>low\<close> exactly above 80, \<open>monitor\<close> exactly above 60 and up to
  80, \<open>high\<close> exactly up to 60; so 85 is low, 70 is monitor, 50 is high, and 80 itself
  is monitor.
\<close>

theorem risk_bands:
  "(risk accuracy = ''low'' \<longleftrightarrow> accuracy > 80)
   \<and> (risk accuracy = ''monitor'' \<longleftrightarrow> 60 < accuracy \<and> accuracy \<le> 80)
   \<and> (risk accuracy = ''high'' \<longleftrightarrow> accuracy \<le> 60)
   \<and> risk 85 = ''low'' \<and> risk 70 = ''monitor'' \<and> risk 50 = ''high'' \<and> risk 80 = ''monitor''"
  by (auto simp: risk_def)

section \<open>The response extractor\<close>

lemma py_find_first_index:
  "py_find c s = (case first_index c s of None \<Rightarrow> - 1 | Some i \<Rightarrow> int i)"
  by (induction s) (auto simp: first_index_def Let_def)

lemma py_rfind_ge: "- 1 \<le> py_rfind c s"
  by (induction s) (auto simp: Let_def)

lemma py_rfind_absent: "py_rfind c s = - 1 \<longleftrightarrow> c \<notin> set s"
proof (induction s)
  case Nil
  show ?case by simp
next
  case (Cons x xs)
  have "- 1 \<le> py_rfind c xs" by (rule py_rfind_ge)
  then have "py_rfind c xs + 1 \<noteq> - 1" by arith
  with Cons show ?case by (auto simp: Let_def)
qed

lemma takeWhile_less:
  "c \<in> set xs \<Longrightarrow> length (takeWhile (\<lambda>y. y \<noteq> c) xs) < length xs"
  by (induction xs) auto

lemma takeWhile_rev_less:
  "c \<in> set xs \<Longrightarrow> length (takeWhile (\<lambda>y. y \<noteq> c) (rev xs)) < length xs"
  using takeWhile_less [of c "rev xs"] by simp

lemma takeWhile_rev_absent:
  "c \<notin> set xs \<Longrightarrow>
   takeWhile (\<lambda>y. y \<noteq> c) (rev xs @ ys) = rev xs @ takeWhile (\<lambda>y. y \<noteq> c) ys"
  by (rule takeWhile_append2) auto

lemma takeWhile_rev_present:
  "c \<in> set xs \<Longrightarrow>
   takeWhile (\<lambda>y. y \<noteq> c) (rev xs @ ys) = takeWhile (\<lambda>y. y \<noteq> c) (rev xs)"
  by (rule takeWhile_append1 [of c]) auto

lemma py_rfind_last_index:
  "py_rfind c s = (case last_index c s of None \<Rightarrow> - 1 | Some j \<Rightarrow> int j)"
proof (induction s)
  case Nil
  show ?case by (simp add: last_index_def)
next
  case (Cons x xs)
  show ?case
  proof (cases "c \<in> set xs")
    case True
    then have l: "length (takeWhile (\<lambda>y. y \<noteq> c) (rev xs)) < length xs"
      by (rule takeWhile_rev_less)
    from True have r: "py_rfind c xs \<noteq> - 1" by (simp add: py_rfind_absent)
    from True Cons have i: "py_rfind c xs = int (length xs - 1 - length (takeWhile (\<lambda>y. y \<noteq> c) (rev xs)))"
      by (simp add: last_index_def)
    from True have "last_index c (x # xs) = Some (length xs - length (takeWhile (\<lambda>y. y \<noteq> c) (rev xs)))"
      by (simp add: last_index_def takeWhile_rev_present)
    with l r i show ?thesis
      by (simp add: Let_def)
  next
    case False
    then have r: "py_rfind c xs = - 1" by (simp add: py_rfind_absent)
    show ?thesis
    proof (cases "x = c")
      case True
      with False have "last_index c (x # xs) = Some 0"
        by (simp add: last_index_def takeWhile_rev_absent)
      with r True show ?thesis by (simp add: Let_def)
    next
      case neq: False
      with False have "last_index c (x # xs) = None"
        by (simp add: last_index_def)
      with r neq show ?thesis by (simp add: Let_def)
    qed
  qed
qed

lemma py_slice_between:
  "i < j \<Longrightarrow> j < length s \<Longrightarrow> py_slice s (int i) (int j + 1) = between_inclusive s i j"
proof -
  assume a: "i < j" "j < length s"
  have "nat (int j + 1 - int i) = j + 1 - i" using a by arith
  with a show ?thesis
    by (simp add: py_slice_def between_inclusive_def Let_def min_def)
qed

lemma takeWhile_nth_holds: "k < length (takeWhile P xs) \<Longrightarrow> P (xs ! k)"
proof -
  assume k: "k < length (takeWhile P xs)"
  then have "takeWhile P xs ! k \<in> set (takeWhile P xs)" by (rule nth_mem)
  then have "P (takeWhile P xs ! k)" by (auto dest: set_takeWhileD)
  with k show ?thesis by (simp add: takeWhile_nth)
qed

lemma first_index_less: "first_index c s = Some i \<Longrightarrow> i < length s"
  by (auto simp: first_index_def takeWhile_less split: if_splits)

lemma first_index_nth: "first_index c s = Some i \<Longrightarrow> s ! i = c"
  using nth_length_takeWhile [of "\<lambda>y. y \<noteq> c" s]
  by (auto simp: first_index_def takeWhile_less split: if_splits)

lemma first_index_least: "first_index c s = Some i \<Longrightarrow> k < i \<Longrightarrow> s ! k \<noteq> c"
  using takeWhile_nth_holds [of k "\<lambda>y. y \<noteq> c" s]
  by (auto simp: first_index_def split: if_splits)

lemma last_index_less: "last_index c s = Some j \<Longrightarrow> j < length s"
  using takeWhile_rev_less [of c s]
  by (auto simp: last_index_def split: if_splits)

lemma last_index_nth: "last_index c s = Some j \<Longrightarrow> s ! j = c"
proof -
  assume a: "last_index c s = Some j"
  then have m: "c \<in> set s" by (auto simp: last_index_def split: if_splits)
  let ?n = "length (takeWhile (\<lambda>y. y \<noteq> c) (rev s))"
  from m have l: "?n < length s" by (rule takeWhile_rev_less)
  then have "\<not> (rev s ! ?n \<noteq> c)"
    using nth_length_takeWhile [of "\<lambda>y. y \<noteq> c" "rev s"] by simp
  moreover from l have "rev s ! ?n = s ! (length s - Suc ?n)" by (rule rev_nth)
  moreover from a m have "j = length s - Suc ?n" by (simp add: last_index_def)
  ultimately show ?thesis by simp
qed

lemma last_index_greatest:
  "last_index c s = Some j \<Longrightarrow> j < k \<Longrightarrow> k < length s \<Longrightarrow> s ! k \<noteq> c"
proof -
  assume a: "last_index c s = Some j" and jk: "j < k" and kl: "k < length s"
  then have m: "c \<in> set s" by (auto simp: last_index_def split: if_splits)
  let ?n = "length (takeWhile (\<lambda>y. y \<noteq> c) (rev s))"
  from m have l: "?n < length s" by (rule takeWhile_rev_less)
  from a m have j: "j = length s - Suc ?n" by (simp add: last_index_def)
  let ?m = "length s - Suc k"
  from j jk kl l have "?m < ?n" by arith
  then have "rev s ! ?m \<noteq> c"
    by (rule takeWhile_nth_holds [of ?m "\<lambda>y. y \<noteq> c" "rev s"])
  moreover from kl have "rev s ! ?m = s ! (length s - Suc ?m)" by (simp add: rev_nth)
  moreover from kl have "length s - Suc ?m = k" by arith
  ultimately show ?thesis by simp
qed

text \<open>
  The algorithm of the extractor. With a decoder that raises nothing but
  \<^verbatim>\<open>JSONDecodeError\<close>, the result is the one the specification describes: the strict
  parse of the whole text when that succeeds; otherwise the parse of the text from the
  first opening brace to the last closing brace, both included, when the two exist in
  that order and the parse succeeds; otherwise \<^verbatim>\<open>None\<close>.
\<close>

lemma parse_json_response_refines_spec:
  assumes "raises_only_decode_error loads"
  shows "parse_json_response loads text = Inr (or_none (extract_spec loads text))"
proof (cases "loads text")
  case (Inr v)
  then show ?thesis
    by (simp add: parse_json_response_def extract_spec_def decoded_def or_none_def)
next
  case (Inl e)
  with assms have e: "loads text = Inl JSONDecodeError"
    by (simp add: raises_only_decode_error_def)
  have second: "(case loads t of Inr v \<Rightarrow> Inr v | Inl JSONDecodeError \<Rightarrow> Inr PyNone | Inl e \<Rightarrow> Inl e)
      = Inr (or_none (decoded loads t))" for t
  proof (cases "loads t")
    case (Inr v)
    then show ?thesis by (simp add: decoded_def or_none_def)
  next
    case (Inl e')
    with assms have "loads t = Inl JSONDecodeError"
      by (simp add: raises_only_decode_error_def)
    then show ?thesis by (simp add: decoded_def or_none_def)
  qed
  show ?thesis
  proof (cases "first_index CHR ''{'' text")
    case None
    with e show ?thesis
      by (simp add: parse_json_response_def extract_spec_def decoded_def or_none_def
          py_find_first_index Let_def)
  next
    case i: (Some i)
    show ?thesis
    proof (cases "last_index CHR ''}'' text")
      case None
      with e i show ?thesis
        by (simp add: parse_json_response_def extract_spec_def decoded_def or_none_def
            py_find_first_index py_rfind_last_index Let_def)
    next
      case j: (Some j)
      from i have "text ! i = CHR ''{''" by (rule first_index_nth)
      moreover from j have "text ! j = CHR ''}''" by (rule last_index_nth)
      ultimately have ij: "i \<noteq> j" by auto
      from j have jl: "j < length text" by (rule last_index_less)
      show ?thesis
      proof (cases "i < j")
        case True
        with jl have "py_slice text (int i) (int j + 1) = between_inclusive text i j"
          by (simp add: py_slice_between)
        with e i j True show ?thesis
          by (simp add: parse_json_response_def extract_spec_def py_find_first_index
              py_rfind_last_index Let_def second) (simp add: decoded_def)
      next
        case False
        with ij have "j < i" by arith
        with e i j show ?thesis
          by (simp add: parse_json_response_def extract_spec_def decoded_def or_none_def
              py_find_first_index py_rfind_last_index Let_def)
      qed
    qed
  qed
qed

text \<open>
  The extractor at four texts: a bare payload, a payload inside prose, braces in the wrong
  order, and braces around text that does not parse.
\<close>

lemma parse_json_response_examples:
  \<open>parse_json_response json_loads_sample ''{"a": 1}'' = Inr (PyDict [(''a'', PyInt 1)])
   \<and> parse_json_response json_loads_sample ''Sure, here it is: {"a": 1} Enjoy!''
       = Inr (PyDict [(''a'', PyInt 1)])
   \<and> parse_json_response json_loads_sample ''} nothing {'' = Inr PyNone
   \<and> parse_json_response json_loads_sample ''{not json}'' = Inr PyNone\<close>
  by code_simp

text \<open>
  An exception of the decoder other than \<^verbatim>\<open>JSONDecodeError\<close> passes through the
  extractor, from the first parse and from the second.
\<close>

lemma parse_json_response_propagates:
  "loads text = Inl e \<Longrightarrow> e \<noteq> JSONDecodeError \<Longrightarrow> parse_json_response loads text = Inl e"
  by (cases e) (simp_all add: parse_json_response_def)

lemma parse_json_response_propagates_second:
  assumes "loads text = Inl JSONDecodeError"
      and "first_index CHR ''{'' text = Some i" and "last_index CHR ''}'' text = Some j"
      and "i < j"
      and "loads (between_inclusive text i j) = Inl e" and "e \<noteq> JSONDecodeError"
  shows "parse_json_response loads text = Inl e"
proof -
  from assms(3) have "j < length text" by (rule last_index_less)
  with assms(4) have "py_slice text (int i) (int j + 1) = between_inclusive text i j"
    by (simp add: py_slice_between)
  with assms show ?thesis
    by (cases e)
      (simp_all add: parse_json_response_def py_find_first_index py_rfind_last_index Let_def)
qed

lemma sample_long_integer:
  "4300 < n \<Longrightarrow> json_loads_sample (replicate n CHR ''9'') = Inl ValueError"
proof -
  assume n: "4300 < n"
  have d: "is_digit CHR ''9''" by code_simp
  have z: "CHR ''9'' \<noteq> CHR ''0''" by simp
  from n have "hd (replicate n CHR ''9'') = CHR ''9''" by (cases n) simp_all
  with n d z have "is_integer_literal (replicate n CHR ''9'')"
    by (simp add: is_integer_literal_def list_all_iff)
  with n show ?thesis by (simp add: json_loads_sample_def)
qed

lemma sample_deep_nesting:
  "100000 \<le> n \<Longrightarrow> json_loads_sample (replicate n CHR ''['') = Inl RecursionError"
proof -
  assume n: "100000 \<le> n"
  have d: "\<not> is_digit CHR ''[''" by code_simp
  with n have "\<not> is_integer_literal (replicate n CHR ''['')"
    by (auto simp: is_integer_literal_def list_all_iff)
  with n show ?thesis by (simp add: json_loads_sample_def list_all_iff)
qed

text \<open>
  C1. The extractor does raise. Its two \<^verbatim>\<open>except\<close> clauses catch
  \<^verbatim>\<open>json.JSONDecodeError\<close> only: on a text that is an integer literal of 4301 digits
  the first parse raises \<^verbatim>\<open>ValueError\<close>, on a text of one hundred thousand opening
  brackets it raises \<^verbatim>\<open>RecursionError\<close>, and the extractor ends with that exception
  instead of returning \<^verbatim>\<open>None\<close>.
\<close>

theorem parse_json_response_raises_on_decoder_error:
  "parse_json_response json_loads_sample (replicate 4301 CHR ''9'') = Inl ValueError
   \<and> parse_json_response json_loads_sample (replicate 100000 CHR ''['') = Inl RecursionError"
proof (rule conjI)
  have "(4300::nat) < 4301" by simp
  then have "json_loads_sample (replicate 4301 CHR ''9'') = Inl ValueError"
    by (rule sample_long_integer)
  then show "parse_json_response json_loads_sample (replicate 4301 CHR ''9'') = Inl ValueError"
    by (rule parse_json_response_propagates) (rule exn.distinct)
  have "(100000::nat) \<le> 100000" by simp
  then have "json_loads_sample (replicate 100000 CHR ''['') = Inl RecursionError"
    by (rule sample_deep_nesting)
  then show "parse_json_response json_loads_sample (replicate 100000 CHR ''['') = Inl RecursionError"
    by (rule parse_json_response_propagates) (rule exn.distinct)
qed

section \<open>The model gateway\<close>

declare attempt_loop.simps [simp del]

lemma provider_calls_append:
  "provider_calls (xs @ ys) = provider_calls xs + provider_calls ys"
  by (simp add: provider_calls_def)

lemma provider_calls_schedule: "provider_calls (attempts_with_backoff n prompt) = n"
  by (induction n prompt rule: attempts_with_backoff.induct) (simp_all add: provider_calls_def)

lemma attempt_loop_all_fail:
  "\<forall>n. \<exists>e. generate_content env n prompt = Inl e \<Longrightarrow> attempt \<le> m \<Longrightarrow>
    attempt_loop env prompt m attempt tr
      = (None, tr @ attempts_with_backoff (nat (m - attempt)) prompt)"
proof (induction env prompt m attempt tr rule: attempt_loop.induct)
  case (1 env prompt max_retries attempt tr)
  show ?case
  proof (cases "attempt < max_retries")
    case False
    with "1.prems" have "attempt = max_retries" by simp
    then show ?thesis by (simp add: attempt_loop.simps)
  next
    case True
    from "1.prems"(1) obtain e where e: "generate_content env (provider_calls tr) prompt = Inl e"
      by blast
    let ?tr = "tr @ [ProviderCall prompt] @ (if attempt < max_retries - 1 then [Sleep 1] else [])"
    from True have le: "attempt + 1 \<le> max_retries" by simp
    have ih: "attempt_loop env prompt max_retries (attempt + 1) ?tr
      = (None, ?tr @ attempts_with_backoff (nat (max_retries - (attempt + 1))) prompt)"
      using "1.IH" [OF True e "1.prems"(1) le] .
    have unfold: "attempt_loop env prompt max_retries attempt tr
      = attempt_loop env prompt max_retries (attempt + 1) ?tr"
      using True e by (subst attempt_loop.simps) simp
    show ?thesis
    proof (cases "attempt < max_retries - 1")
      case last: False
      with True have "max_retries - attempt = 1" by simp
      moreover from this have "max_retries - (attempt + 1) = 0" by simp
      ultimately show ?thesis using unfold ih last by simp
    next
      case more: True
      then obtain k where k: "nat (max_retries - (attempt + 1)) = Suc k"
        by (cases "nat (max_retries - (attempt + 1))") auto
      then have "nat (max_retries - attempt) = Suc (Suc k)" by arith
      with k show ?thesis using unfold ih more by simp
    qed
  qed
qed

lemma attempt_loop_text_from_provider:
  "attempt_loop env prompt m attempt tr = (Some t, tr') \<Longrightarrow>
   \<exists>n. generate_content env n prompt = Inr t"
proof (induction env prompt m attempt tr rule: attempt_loop.induct)
  case (1 env prompt max_retries attempt tr)
  show ?case
  proof (cases "attempt < max_retries")
    case False
    with "1.prems" show ?thesis by (simp add: attempt_loop.simps)
  next
    case True
    show ?thesis
    proof (cases "generate_content env (provider_calls tr) prompt")
      case (Inr got)
      with True "1.prems" have "got = t" by (simp add: attempt_loop.simps)
      with Inr show ?thesis by blast
    next
      case (Inl e)
      with True "1.prems" have
        "attempt_loop env prompt max_retries (attempt + 1)
           (tr @ [ProviderCall prompt] @ (if attempt < max_retries - 1 then [Sleep 1] else []))
         = (Some t, tr')"
        by (simp add: attempt_loop.simps)
      with "1.IH" [OF True Inl] show ?thesis .
    qed
  qed
qed

text \<open>
  C4. With the key configured and a retry budget that is not negative, a call whose
  every attempt fails makes exactly \<open>max_retries\<close> calls of the provider, one wait of
  one second between each two, and returns \<^verbatim>\<open>None\<close>. Whatever the provider does the
  gateway returns: its result is \<^verbatim>\<open>None\<close> or a text that a call of the provider
  returned.
\<close>

theorem call_gemini_with_retry_exhausts_attempts:
  "(key_configured (GEMINI_API_KEY env)
      \<and> (\<forall>n. \<exists>e. generate_content env n prompt = Inl e)
      \<and> 0 \<le> max_retries
    \<longrightarrow> call_gemini_with_retry env prompt max_retries tr
          = (None, tr @ attempts_with_backoff (nat max_retries) prompt)
        \<and> int (provider_calls (attempts_with_backoff (nat max_retries) prompt)) = max_retries)
   \<and> (\<forall>t. fst (call_gemini_with_retry env prompt max_retries tr) = Some t
          \<longrightarrow> (\<exists>n. generate_content env n prompt = Inr t))"
proof (intro conjI impI allI)
  assume a: "key_configured (GEMINI_API_KEY env)
      \<and> (\<forall>n. \<exists>e. generate_content env n prompt = Inl e) \<and> 0 \<le> max_retries"
  then have "attempt_loop env prompt max_retries 0 tr
      = (None, tr @ attempts_with_backoff (nat (max_retries - 0)) prompt)"
    by (intro attempt_loop_all_fail) simp_all
  with a show "call_gemini_with_retry env prompt max_retries tr
      = (None, tr @ attempts_with_backoff (nat max_retries) prompt)"
    by (simp add: call_gemini_with_retry_def)
  from a show "int (provider_calls (attempts_with_backoff (nat max_retries) prompt)) = max_retries"
    by (simp add: provider_calls_schedule)
next
  fix t
  assume s: "fst (call_gemini_with_retry env prompt max_retries tr) = Some t"
  then have k: "key_configured (GEMINI_API_KEY env)"
    by (auto simp: call_gemini_with_retry_def split: if_splits)
  with s have "fst (attempt_loop env prompt max_retries 0 tr) = Some t"
    by (simp add: call_gemini_with_retry_def)
  then have "attempt_loop env prompt max_retries 0 tr
      = (Some t, snd (attempt_loop env prompt max_retries 0 tr))"
    by (metis prod.collapse)
  then show "\<exists>n. generate_content env n prompt = Inr t"
    by (rule attempt_loop_text_from_provider)
qed

text \<open>The theorem with a provider that always fails, for budgets of two and three.\<close>

theorem call_gemini_with_retry_exhausts_attempts_witness:
  "call_gemini_with_retry (sample_env (Some ''secret'') (Inl (ProviderError ''unavailable''))) ''prompt'' 2 []
     = (None, [ProviderCall ''prompt'', Sleep 1, ProviderCall ''prompt''])
   \<and> call_gemini_with_retry (sample_env (Some ''secret'') (Inl (ProviderError ''unavailable''))) ''prompt'' 3 []
     = (None, [ProviderCall ''prompt'', Sleep 1, ProviderCall ''prompt'', Sleep 1, ProviderCall ''prompt''])"
proof -
  let ?env = "sample_env (Some ''secret'') (Inl (ProviderError ''unavailable''))"
  have k: "key_configured (GEMINI_API_KEY ?env)"
    by (simp add: key_configured_def sample_env_def)
  have f: "\<forall>n. \<exists>e. generate_content ?env n ''prompt'' = Inl e"
    by (simp add: sample_env_def)
  have two: "attempts_with_backoff (nat 2) ''prompt''
      = [ProviderCall ''prompt'', Sleep 1, ProviderCall ''prompt'']"
    by (simp add: numeral_2_eq_2)
  have three: "attempts_with_backoff (nat 3) ''prompt''
      = [ProviderCall ''prompt'', Sleep 1, ProviderCall ''prompt'', Sleep 1, ProviderCall ''prompt'']"
    by (simp add: numeral_3_eq_3)
  show ?thesis
    using k f two three
      call_gemini_with_retry_exhausts_attempts [of ?env "''prompt''" 2 "[]"]
      call_gemini_with_retry_exhausts_attempts [of ?env "''prompt''" 3 "[]"]
    by simp
qed

section \<open>The session cache\<close>






section \<open>The absent credential\<close>








section \<open>Round validation: what is accepted\<close>

text \<open>
  When \<^verbatim>\<open>generate_rounds\<close> misses the cache and returns a response, the response is
  the fallback response as a whole, or it has source \<open>ai\<close> and exactly two rounds,
  each accepted by the loop and tagged: no batch is accepted in part.
\<close>

lemma map_of_dict_update_same: "map_of (dict_update k v kvs) k = Some v"
  by (induction kvs) auto

lemma map_of_dict_update_other: "k' \<noteq> k \<Longrightarrow> map_of (dict_update k v kvs) k' = map_of kvs k'"
  by (induction kvs) auto

lemma keys_dict_update: "set (map fst (dict_update k v kvs)) = insert k (set (map fst kvs))"
  by (induction kvs) auto

lemma tagging_keeps_round:
  assumes "py_all_in [''id'', ''type'', ''promptText'', ''items''] r = Inr True"
      and "py_getitem r ''items'' = Inr its" and "py_len its = Inr n" and "5 \<le> n"
      and "py_setitem r ''aiGenerated'' (PyBool True) = Inr tagged"
  shows "accepted_round tagged"
proof (cases r)
  case (PyDict kvs)
  with assms(5) have t: "tagged = PyDict (dict_update ''aiGenerated'' (PyBool True) kvs)"
    by simp
  from assms(1) PyDict have keys:
    "''id'' \<in> set (map fst kvs)" "''type'' \<in> set (map fst kvs)"
    "''promptText'' \<in> set (map fst kvs)" "''items'' \<in> set (map fst kvs)"
    by (auto split: if_splits)
  from assms(2) PyDict have "map_of kvs ''items'' = Some its"
    by (auto split: option.splits)
  then have "map_of (dict_update ''aiGenerated'' (PyBool True) kvs) ''items'' = Some its"
    by (simp add: map_of_dict_update_other)
  with t assms(3,4) have "case item_count tagged of Inr n \<Rightarrow> 5 \<le> n | Inl e \<Rightarrow> False"
    by (simp add: item_count_def)
  moreover from t keys have "py_all_in [''id'', ''type'', ''promptText'', ''items''] tagged = Inr True"
    by (simp add: keys_dict_update del: set_map)
  moreover from t have "py_getitem tagged ''aiGenerated'' = Inr (PyBool True)"
    by (simp add: map_of_dict_update_same)
  ultimately show ?thesis by (simp add: accepted_round_def)
qed (use assms(5) in simp_all)

lemma validate_rounds_accepts:
  "validate_rounds elems = Inr (Some rs) \<Longrightarrow>
   length rs = length elems \<and> list_all accepted_round rs"
proof (induction elems arbitrary: rs)
  case Nil
  then show ?case by simp
next
  case (Cons r elems)
  from Cons.prems obtain its n tagged others where
    a: "py_all_in [''id'', ''type'', ''promptText'', ''items''] r = Inr True" and
    i: "py_getitem r ''items'' = Inr its" and
    l: "py_len its = Inr n" and
    n: "5 \<le> n" and
    t: "py_setitem r ''aiGenerated'' (PyBool True) = Inr tagged" and
    v: "validate_rounds elems = Inr (Some others)" and
    e: "rs = tagged # others"
    by (auto simp del: py_all_in.simps split: sum.splits if_splits option.splits)
  from a i l n t have "accepted_round tagged" by (rule tagging_keeps_round)
  moreover from v have "length others = length elems \<and> list_all accepted_round others"
    by (rule Cons.IH)
  ultimately show ?case using e by simp
qed

lemma validate_payload_accepts:
  "validate_payload parsed = Inr (Some rs) \<Longrightarrow> length rs = 2 \<and> list_all accepted_round rs"
proof -
  assume a: "validate_payload parsed = Inr (Some rs)"
  then obtain whole n rounds_data elems where
    l: "py_len whole = Inr n" and n: "2 \<le> n" and
    s: "py_slice_to whole 2 = Inr rounds_data" and
    i: "py_iter rounds_data = Inr elems" and
    v: "validate_rounds elems = Inr (Some rs)"
    by (auto simp: validate_payload_def split: sum.splits if_splits)
  from l n s i have "length elems = 2"
    by (cases whole) auto
  with validate_rounds_accepts [OF v] show ?thesis by simp
qed

lemma generate_rounds_all_or_nothing:
  assumes "generate_rounds env w request = (Inr resp, w')"
      and "cache_lookup w (GenerateRoundsRequest.sessionId request) = None"
  shows "resp = fallback_rounds_response
    \<or> (GenerateRoundsResponse.source resp = ''ai''
       \<and> length (GenerateRoundsResponse.rounds resp) = 2
       \<and> list_all accepted_round (GenerateRoundsResponse.rounds resp))"
  using assms
  by (auto simp: generate_rounds_def Let_def dest: validate_payload_accepts
      split: option.splits sum.splits if_splits)

section \<open>Where the round validation departs from the specification\<close>

text \<open>
  C2. The validation has no type check: on the provider text \<^verbatim>\<open>{"rounds": null}\<close> the
  call \<^verbatim>\<open>len(parsed["rounds"])\<close> raises \<^verbatim>\<open>TypeError\<close>, and on the text \<^verbatim>\<open>7\<close> the
  test \<^verbatim>\<open>"rounds" not in parsed\<close> does. Nothing catches it: the handler ends with the
  exception, not with the fallback response.
\<close>

theorem generate_rounds_raises_on_untyped_payload:
  "fst (generate_rounds (sample_env (Some ''secret'') (Inr null_rounds_text)) startup
          (english_request None)) = Inl TypeError
   \<and> fst (generate_rounds (sample_env (Some ''secret'') (Inr ''7'')) startup
          (english_request None)) = Inl TypeError"
  by code_simp

text \<open>
  C6. The rounds of the fallback catalog have three items each, and the validation only
  rejects fewer than five: a generated round with seven items is returned as it is.
\<close>

theorem generate_rounds_item_counts_outside_range:
  "fst (generate_rounds (sample_env None (Inr valid_rounds_text)) startup (english_request None))
     = Inr fallback_rounds_response
   \<and> map item_count (GenerateRoundsResponse.rounds fallback_rounds_response) = [Inr 3, Inr 3]
   \<and> fst (generate_rounds (sample_env (Some ''secret'') (Inr long_round_text)) startup
          (english_request None))
     = Inr \<lparr>GenerateRoundsResponse.rounds =
               [tagged_round ''ai-4'' seven_items, tagged_round ''ai-5'' five_items],
             GenerateRoundsResponse.source = ''ai''\<rparr>
   \<and> item_count (tagged_round ''ai-4'' seven_items) = Inr 7"
  by code_simp

text \<open>
  C8. The rounds of the fallback catalog are returned with source \<open>fallback\<close> and
  carry \<open>aiGenerated\<close> true.
\<close>

theorem fallback_rounds_flagged_ai_generated:
  "fst (generate_rounds (sample_env (Some ''secret'') (Inl (ProviderError ''unavailable''))) startup
          (english_request None))
     = Inr fallback_rounds_response
   \<and> GenerateRoundsResponse.source fallback_rounds_response = ''fallback''
   \<and> map (\<lambda>r. py_getitem r ''aiGenerated'') (GenerateRoundsResponse.rounds fallback_rounds_response)
     = [Inr (PyBool True), Inr (PyBool True)]"
  by code_simp

section \<open>Word-pair generation\<close>

text \<open>The handler returns a pair of empty strings of the provider as it is.\<close>

lemma generate_words_empty_fields_value:
  "generate_words (sample_env None (Inr empty_pair_text)) sample_words_request
     = [PyDict [(''correct'', PyStr []), (''wrong'', PyStr [])]]"
  by code_simp

lemma collect_pairs_filter:
  "collect_pairs objs = Inr pairs \<Longrightarrow> pairs = filter has_both_fields objs"
proof (induction objs arbitrary: pairs)
  case Nil
  then show ?case by simp
next
  case (Cons obj objs)
  from Cons.prems obtain both ps where
    b: "py_all_in [''correct'', ''wrong''] obj = Inr both" and
    r: "collect_pairs objs = Inr ps" and
    e: "pairs = (if both then obj # ps else ps)"
    by (auto simp del: py_all_in.simps split: sum.splits)
  from r have "ps = filter has_both_fields objs" by (rule Cons.IH)
  moreover from b have "has_both_fields obj = both" by (simp add: has_both_fields_def)
  ultimately show ?case using e by simp
qed

lemma fallback_pairs_nonempty: "list_all nonempty_pair FALLBACK_WORD_PAIRS"
  by code_simp

lemma fallback_pairs_have_fields: "list_all has_both_fields FALLBACK_WORD_PAIRS"
  by code_simp

lemma list_all_take: "list_all P xs \<Longrightarrow> list_all P (take n xs)"
  by (auto simp: list_all_iff dest: in_set_takeD)

text \<open>
  The handler always returns between one and six elements, each of which passed the test
  \<^verbatim>\<open>"correct" in obj and "wrong" in obj\<close>; the list returned is the fallback list, or
  the first six of the elements of the decoded provider answer that pass the test.
\<close>

lemma generate_words_pairs:
  "list_all has_both_fields (generate_words env req)
   \<and> generate_words env req \<noteq> []
   \<and> length (generate_words env req) \<le> 6
   \<and> list_all nonempty_pair FALLBACK_WORD_PAIRS
   \<and> (generate_words env req = FALLBACK_WORD_PAIRS
      \<or> (\<exists>content parsed objs.
            chat_completion env
              (build_generate_prompt (py_str env) (age req) (language req)
                 (case difficulties req of None \<Rightarrow> [] | Some ds \<Rightarrow> ds)) = Inr content
            \<and> json_loads env (remove_fence_close (remove_fence_open (py_strip content))) = Inr parsed
            \<and> py_iter parsed = Inr objs
            \<and> generate_words env req = take 6 (filter has_both_fields objs)))"
proof -
  let ?prompt = "build_generate_prompt (py_str env) (age req) (language req)
                 (case difficulties req of None \<Rightarrow> [] | Some ds \<Rightarrow> ds)"
  have fb_len: "length FALLBACK_WORD_PAIRS = 6" by (simp add: FALLBACK_WORD_PAIRS_def)
  have fb_ne: "FALLBACK_WORD_PAIRS \<noteq> []" by (simp add: FALLBACK_WORD_PAIRS_def)
  show ?thesis
  proof (cases "generate_words env req = FALLBACK_WORD_PAIRS")
    case True
    with fb_len fb_ne show ?thesis
      by (simp add: fallback_pairs_nonempty fallback_pairs_have_fields)
  next
    case False
    then obtain content parsed objs pairs where
      c: "chat_completion env ?prompt = Inr content" and
      p: "json_loads env (remove_fence_close (remove_fence_open (py_strip content))) = Inr parsed" and
      i: "py_iter parsed = Inr objs" and
      k: "collect_pairs objs = Inr pairs" and
      n: "pairs \<noteq> []" and
      g: "generate_words env req = take 6 pairs"
      by (auto simp: generate_words_def Let_def split: sum.splits if_splits)
    from k have f: "pairs = filter has_both_fields objs" by (rule collect_pairs_filter)
    then have "list_all has_both_fields pairs" by (simp add: list_all_iff)
    then have "list_all has_both_fields (take 6 pairs)" by (rule list_all_take)
    with c p i f g n show ?thesis
      by (auto simp: fallback_pairs_nonempty)
  qed
qed

text \<open>On a dictionary the test says that both keys are present.\<close>

lemma has_both_fields_dict:
  "has_both_fields (PyDict kvs) \<longleftrightarrow> ''correct'' \<in> fst ` set kvs \<and> ''wrong'' \<in> fst ` set kvs"
  by (auto simp: has_both_fields_def)

lemma generate_words_sample:
  "generate_words (sample_env None (Inr cat_pair_text)) sample_words_request
     = [word_pair ''cat'' ''kat'']"
  by code_simp

section \<open>Word-pair generation: the endpoint\<close>

text \<open>
  The validation of the response: a pair of the response holds the two strings of the
  element it was read from, and the fallback list passes.
\<close>

lemma validate_WordPair_read_from:
  "validate_WordPair obj = Inr p \<Longrightarrow> read_from obj p"
  by (auto simp: validate_WordPair_def read_from_def
      split: pyval.splits option.splits)

lemma validate_WordPairs_read_from:
  "validate_WordPairs objs = Inr ps \<Longrightarrow> list_all2 read_from objs ps"
proof (induction objs arbitrary: ps)
  case Nil
  then show ?case by simp
next
  case (Cons obj objs)
  from Cons.prems obtain p rest where
    a: "validate_WordPair obj = Inr p" and
    b: "validate_WordPairs objs = Inr rest" and
    c: "ps = p # rest"
    by (auto split: sum.splits)
  from a have "read_from obj p" by (rule validate_WordPair_read_from)
  moreover from b have "list_all2 read_from objs rest" by (rule Cons.IH)
  ultimately show ?case using c by simp
qed

lemma fallback_pairs_validated:
  "validate_WordPairs FALLBACK_WORD_PAIRS
     = Inr [\<lparr>correct = ''friend'', wrong = ''freind''\<rparr>,
            \<lparr>correct = ''because'', wrong = ''becuase''\<rparr>,
            \<lparr>correct = ''beautiful'', wrong = ''beatiful''\<rparr>,
            \<lparr>correct = ''tomorrow'', wrong = ''tommorow''\<rparr>,
            \<lparr>correct = ''receive'', wrong = ''recieve''\<rparr>,
            \<lparr>correct = ''different'', wrong = ''diffrent''\<rparr>]"
  by code_simp

text \<open>
  C10 as the specification states it fails: the endpoint returns the pair of empty strings
  of a provider answer, which passes the validation of the response.
\<close>

theorem generate_words_endpoint_empty_fields_counterexample:
  "generate_words_endpoint (sample_env None (Inr empty_pair_text)) sample_words_request
     = Inr [\<lparr>correct = [], wrong = []\<rparr>]
   \<and> \<not> list_all nonempty_word_pair [\<lparr>correct = [], wrong = []\<rparr>]"
  by code_simp

text \<open>
  C10, as the code has it. Whenever the endpoint returns word pairs, there are between one
  and six of them, and each holds the two strings that the element of the handler's list
  had under \<open>correct\<close> and \<open>wrong\<close>: both fields are strings. The list is the
  fallback list, whose pairs have two non-empty strings, or it is read from the first six
  elements of the decoded provider answer that pass the handler's test, and nothing
  checks that their strings are non-empty.
\<close>

theorem generate_words_endpoint_pairs:
  assumes "generate_words_endpoint env req = Inr pairs"
  shows "list_all2 read_from (generate_words env req) pairs
    \<and> pairs \<noteq> [] \<and> length pairs \<le> 6
    \<and> (generate_words env req = FALLBACK_WORD_PAIRS \<and> list_all nonempty_word_pair pairs
       \<or> (\<exists>content parsed objs.
            chat_completion env
              (build_generate_prompt (py_str env) (age req) (language req)
                 (case difficulties req of None \<Rightarrow> [] | Some ds \<Rightarrow> ds)) = Inr content
            \<and> json_loads env (remove_fence_close (remove_fence_open (py_strip content))) = Inr parsed
            \<and> py_iter parsed = Inr objs
            \<and> generate_words env req = take 6 (filter has_both_fields objs)))"
proof -
  from assms have v: "validate_WordPairs (generate_words env req) = Inr pairs"
    by (simp add: generate_words_endpoint_def)
  then have r: "list_all2 read_from (generate_words env req) pairs"
    by (rule validate_WordPairs_read_from)
  then have len: "length pairs = length (generate_words env req)"
    by (simp add: list_all2_lengthD)
  have h: "generate_words env req \<noteq> [] \<and> length (generate_words env req) \<le> 6"
    using generate_words_pairs [of env req] by simp
  with len have n: "pairs \<noteq> [] \<and> length pairs \<le> 6" by auto
  show ?thesis
  proof (cases "generate_words env req = FALLBACK_WORD_PAIRS")
    case True
    with v have "validate_WordPairs FALLBACK_WORD_PAIRS = Inr pairs" by simp
    then have "list_all nonempty_word_pair pairs"
      by (auto simp: fallback_pairs_validated nonempty_word_pair_def)
    with r n True show ?thesis by simp
  next
    case False
    with generate_words_pairs [of env req] r n show ?thesis by simp
  qed
qed

text \<open>The theorem for a provider answer with one pair.\<close>

theorem generate_words_endpoint_pairs_witness:
  "generate_words_endpoint (sample_env None (Inr cat_pair_text)) sample_words_request
     = Inr [\<lparr>correct = ''cat'', wrong = ''kat''\<rparr>]
   \<and> list_all2 read_from
        (generate_words (sample_env None (Inr cat_pair_text)) sample_words_request)
        [\<lparr>correct = ''cat'', wrong = ''kat''\<rparr>]"
proof -
  have e: "generate_words_endpoint (sample_env None (Inr cat_pair_text)) sample_words_request
     = Inr [\<lparr>correct = ''cat'', wrong = ''kat''\<rparr>]"
    by code_simp
  show ?thesis
    using e generate_words_endpoint_pairs [OF e] by simp
qed

text \<open>
  An element that is not a dictionary of two strings, a bare string holding both names or
  a pair with \<^verbatim>\<open>null\<close> and a number, passes the handler and fails the validation: the
  endpoint returns no list. When the provider fails, the endpoint returns the fallback
  list.
\<close>

lemma generate_words_endpoint_refuses:
  "generate_words_endpoint (sample_env None (Inr bare_string_text)) sample_words_request
     = Inl ValidationError
   \<and> generate_words_endpoint (sample_env None (Inr untyped_pair_text)) sample_words_request
     = Inl ValidationError"
  by code_simp

lemma generate_words_endpoint_fallback:
  "generate_words_endpoint (sample_env None (Inl (ProviderError ''unavailable''))) sample_words_request
     = validate_WordPairs FALLBACK_WORD_PAIRS"
  by code_simp

end
